theory Spec2Isabelle
  imports Main "HOL-Library.Char_ord" "HOL-Library.List_Lexorder" "HOL-Library.Word"
begin

section \<open>Go values shared by the order service\<close>

text \<open>
  A Go slice is either \<open>nil\<close> or a (possibly empty) sequence; the two are different
  values of the language although both have length zero. \<open>None\<close> is the nil slice.
\<close>

type_synonym 'a slice = "'a list option"

definition elems :: "'a slice \<Rightarrow> 'a list" where
  "elems s = (case s of None \<Rightarrow> [] | Some xs \<Rightarrow> xs)"


text \<open>
  \<^verbatim>\<open>append(s, t...)\<close>: appending nothing to the nil slice gives the nil slice back,
  every other result is a non-nil slice.
\<close>

definition append_slice :: "'a slice \<Rightarrow> 'a slice \<Rightarrow> 'a slice" where
  "append_slice s t =
     (case s of
        None \<Rightarrow> (case elems t of [] \<Rightarrow> None | x # xs \<Rightarrow> Some (x # xs))
      | Some xs \<Rightarrow> Some (xs @ elems t))"

text \<open>
  What a method call of the source can do: panic (a nil pointer is dereferenced), or
  return its value together with Go's \<open>error\<close> result (\<open>None\<close> is the nil error).
\<close>

datatype ('a, 'e) outcome = Panic | Return 'a "'e option"

section \<open>Pagination: \<open>ListWithPagination\<close> and \<open>ListAll\<close>\<close>

text \<open>
  \<open>Pagination\<close> is declared by the shared client; the order service reads its field
  \<open>NextPageOptions\<close> only, a pointer that is nil when the server named no further page.
\<close>

record 'o Pagination =
  NextPageOptions :: "'o option"

text \<open>
  The shared client's \<open>ListWithPagination(ctx, path, resource, options)\<close> is the fetch
  collaborator and a parameter of the embedding. It performs a request, so it is a
  function of the world \<open>'w\<close> it runs in and returns the new world; its reply is what
  the caller can see afterwards: the orders it decoded into \<open>resource\<close>, the pagination
  pointer (\<open>None\<close> is nil) and the error.
\<close>

record ('r, 'o, 'e) client_reply =
  resource_Orders :: "'r slice"
  reply_pagination :: "'o Pagination option"
  reply_err :: "'e option"

type_synonym ('r, 'o, 'e, 'w) client =
  "string \<Rightarrow> 'o \<Rightarrow> 'w \<Rightarrow> ('r, 'o, 'e) client_reply \<times> 'w"

definition ordersBasePath :: string where
  "ordersBasePath = ''orders''"

text \<open>
  \<^verbatim>\<open>func (s *OrderServiceOp) ListWithPagination(ctx, options) ([]Order, *Pagination, error)\<close>:
  on an error of the client all three results but the error are nil.
\<close>

definition ListWithPagination ::
  "('r, 'o, 'e, 'w) client \<Rightarrow> 'o \<Rightarrow> 'w \<Rightarrow>
     ('r slice \<times> 'o Pagination option \<times> 'e option) \<times> 'w" where
  "ListWithPagination client options w =
     (let path = ordersBasePath @ ''.json'';
          (reply, w') = client path options w
      in case reply_err reply of
           Some err \<Rightarrow> ((None, None, Some err), w')
         | None \<Rightarrow> ((resource_Orders reply, reply_pagination reply, None), w'))"

text \<open>
  The loop of \<open>ListAll\<close>. The number of iterations is decided by the server alone, so the
  loop need not end: \<open>None\<close> is the run that never returns. A nil pagination pointer
  after a successful fetch is dereferenced by \<^verbatim>\<open>pagination.NextPageOptions\<close> and panics.
\<close>

partial_function (option) ListAll_loop ::
  "('r, 'o, 'e, 'w) client \<Rightarrow> 'r slice \<Rightarrow> 'o \<Rightarrow> 'w \<Rightarrow>
     (('r slice, 'e) outcome \<times> 'w) option" where
  "ListAll_loop client collector options w =
     (case ListWithPagination client options w of
        ((entities, pagination, Some err), w') \<Rightarrow> Some (Return collector (Some err), w')
      | ((entities, pagination, None), w') \<Rightarrow>
          (case pagination of
             None \<Rightarrow> Some (Panic, w')
           | Some pg \<Rightarrow>
               (case NextPageOptions pg of
                  None \<Rightarrow> Some (Return (append_slice collector entities) None, w')
                | Some nxt \<Rightarrow>
                    ListAll_loop client (append_slice collector entities) nxt w')))"

text \<open>\<^verbatim>\<open>collector := []Order{}\<close> is the empty, non-nil slice.\<close>

definition ListAll ::
  "('r, 'o, 'e, 'w) client \<Rightarrow> 'o \<Rightarrow> 'w \<Rightarrow> (('r slice, 'e) outcome \<times> 'w) option" where
  "ListAll client options w = ListAll_loop client (Some []) options w"

subsection \<open>A scripted fetch collaborator\<close>

text \<open>
  A test double for the client: it answers the calls with the replies of a script, in
  order, whatever it is asked, and records the path and the options of every call it
  receives. Once the script is used up it answers with its fallback reply.
\<close>

record ('r, 'o, 'e) script_world =
  pending :: "('r, 'o, 'e) client_reply list"
  fallback :: "('r, 'o, 'e) client_reply"
  calls :: "(string \<times> 'o) list"

definition scripted_client ::
  "('r, 'o, 'e, ('r, 'o, 'e) script_world) client" where
  "scripted_client path options w =
     (case pending w of
        [] \<Rightarrow> (fallback w, w\<lparr>calls := calls w @ [(path, options)]\<rparr>)
      | r # rs \<Rightarrow> (r, w\<lparr>pending := rs, calls := calls w @ [(path, options)]\<rparr>))"

text \<open>A successful page and a failed fetch, as replies of the client.\<close>

definition page_reply :: "'r slice \<Rightarrow> 'o option \<Rightarrow> ('r, 'o, 'e) client_reply" where
  "page_reply records nxt =
     \<lparr>resource_Orders = records,
      reply_pagination = Some \<lparr>NextPageOptions = nxt\<rparr>,
      reply_err = None\<rparr>"

definition error_reply ::
  "'r slice \<Rightarrow> 'o Pagination option \<Rightarrow> 'e \<Rightarrow> ('r, 'o, 'e) client_reply" where
  "error_reply records pg err =
     \<lparr>resource_Orders = records, reply_pagination = pg, reply_err = Some err\<rparr>"


text \<open>
  A script of pages that each name a successor: every entry is the page's records and
  the next-page options the server hands out with it.
\<close>

definition next_pages :: "('r slice \<times> 'o) list \<Rightarrow> ('r, 'o, 'e) client_reply list" where
  "next_pages pages = map (\<lambda>(records, nxt). page_reply records (Some nxt)) pages"

definition records_of :: "('r slice \<times> 'o) list \<Rightarrow> 'r list" where
  "records_of pages = concat (map (\<lambda>(records, nxt). elems records) pages)"

text \<open>The entry the scripted client records for a fetch of the orders collection.\<close>

definition orders_call :: "'o \<Rightarrow> string \<times> 'o" where
  "orders_call options = (ordersBasePath @ ''.json'', options)"

text \<open>
  For any client: fetching, one after the other, the pages of a list from a world \<open>w\<close>,
  the first with \<open>options\<close> and each later one with the next-page options of the page
  before. The result is the options and the world the fetches lead to, or \<open>None\<close> when
  the client does not answer the next fetch with the next page of the list.
\<close>

fun walk ::
  "('r, 'o, 'e, 'w) client \<Rightarrow> 'o \<Rightarrow> 'w \<Rightarrow> ('r slice \<times> 'o) list \<Rightarrow> ('o \<times> 'w) option" where
  "walk client options w [] = Some (options, w)"
| "walk client options w ((records, nxt) # pages) =
     (if fst (ListWithPagination client options w) =
           (records, Some \<lparr>NextPageOptions = Some nxt\<rparr>, None)
      then walk client nxt (snd (ListWithPagination client options w)) pages
      else None)"

section \<open>JSON texts and the library that decodes them\<close>

text \<open>
  The decoders of the source hand their input to \<open>encoding/json\<close>. The embedding starts
  from what the library's scanner makes of the bytes: either they are not a JSON text,
  or they are the text of one JSON value. Member names and strings are the decoded Go
  strings; the members of an object keep their order and their duplicates. A number is
  kept as its literal \<open>'n\<close>.
\<close>

datatype 'n json =
    JNull
  | JBool bool
  | JNumber 'n
  | JString string
  | JArray "'n json list"
  | JObject "(string \<times> 'n json) list"

datatype 'n bytes = Malformed | Text "'n json"

text \<open>
  The errors of a decode, by kind: the input is not a JSON text; a JSON value does not
  fit the Go type it is stored into (this is also the error for a number that does not
  fit a \<open>float64\<close>); the \<open>UnmarshalJSON\<close> method of a field's type failed.
\<close>

datatype error = SyntaxError | UnmarshalTypeError | UnmarshalerError

text \<open>The decoder keeps the first error it saves and goes on.\<close>

definition saveError :: "error option \<Rightarrow> error option \<Rightarrow> error option" where
  "saveError saved err = (case saved of Some e \<Rightarrow> Some e | None \<Rightarrow> err)"

text \<open>
  What \<open>interface{}\<close> holds after a decode: nil, \<open>bool\<close>, \<open>float64\<close>, \<open>string\<close>,
  \<open>[]interface{}\<close> or \<open>map[string]interface{}\<close>. A map is kept as the list of its
  entries in increasing order of the keys, each key once.
\<close>

datatype 'f iface =
    AnyNil
  | AnyBool bool
  | AnyFloat64 'f
  | AnyString string
  | AnySlice "'f iface list"
  | AnyMap "(string \<times> 'f iface) list"

fun map_store :: "string \<Rightarrow> 'v \<Rightarrow> (string \<times> 'v) list \<Rightarrow> (string \<times> 'v) list" where
  "map_store k v [] = [(k, v)]"
| "map_store k v ((k', v') # m) =
     (if k = k' then (k, v) # m
      else if k < k' then (k, v) # (k', v') # m
      else (k', v') # map_store k v m)"

text \<open>
  The parts of the libraries that the embedding does not spell out are its parameters:
  \<^item> \<open>foldName\<close>: the case folding under which the decoder compares a member name with
    a field's name when no field has exactly that name;
  \<^item> \<open>convertNumber\<close>: the \<open>float64\<close> of a number literal, or \<open>None\<close> when the literal is
    out of range;
  \<^item> \<open>formatFloat\<close>: the text \<open>fmt\<close> prints for a \<open>float64\<close> under the verb \<open>%v\<close>;
  \<^item> \<open>encodeFloat\<close>: the number literal the encoder writes for a \<open>float64\<close>, or \<open>None\<close>
    for a value JSON cannot express;
  \<^item> \<open>toValidUTF8\<close>: the string the encoder writes for a Go string.
\<close>

record ('n, 'f) library =
  foldName :: "string \<Rightarrow> string"
  convertNumber :: "'n \<Rightarrow> 'f option"
  formatFloat :: "'f \<Rightarrow> string"
  encodeFloat :: "'f \<Rightarrow> 'n option"
  toValidUTF8 :: "string \<Rightarrow> string"

text \<open>
  The field a member name selects among the JSON names of a struct's fields, in the
  order of the fields: the field of exactly that name, else the first field whose folded
  name is the folded member name, else none (the member is skipped).
\<close>

definition field_of :: "('n, 'f) library \<Rightarrow> string list \<Rightarrow> string \<Rightarrow> string option" where
  "field_of L names key =
     (if key \<in> set names then Some key
      else find (\<lambda>n. foldName L n = foldName L key) names)"

definition routes_to :: "('n, 'f) library \<Rightarrow> string list \<Rightarrow> string \<Rightarrow> string \<Rightarrow> bool" where
  "routes_to L names name key = (field_of L names key = Some name)"

text \<open>Decoding a JSON value into an empty \<open>interface{}\<close> nested in another value.\<close>

fun valueInterface :: "('n, 'f) library \<Rightarrow> 'n json \<Rightarrow> 'f iface \<times> error option"
  and arrayInterface :: "('n, 'f) library \<Rightarrow> 'n json list \<Rightarrow> 'f iface list \<times> error option"
  and objectInterface ::
    "('n, 'f) library \<Rightarrow> (string \<times> 'f iface) list \<Rightarrow> (string \<times> 'n json) list \<Rightarrow>
       (string \<times> 'f iface) list \<times> error option" where
  "valueInterface L JNull = (AnyNil, None)"
| "valueInterface L (JBool b) = (AnyBool b, None)"
| "valueInterface L (JNumber n) =
     (case convertNumber L n of
        None \<Rightarrow> (AnyNil, Some UnmarshalTypeError)
      | Some f \<Rightarrow> (AnyFloat64 f, None))"
| "valueInterface L (JString s) = (AnyString s, None)"
| "valueInterface L (JArray xs) =
     (let (vs, e) = arrayInterface L xs in (AnySlice vs, e))"
| "valueInterface L (JObject ms) =
     (let (m, e) = objectInterface L [] ms in (AnyMap m, e))"
| "arrayInterface L [] = ([], None)"
| "arrayInterface L (x # xs) =
     (let (v, e) = valueInterface L x;
          (vs, es) = arrayInterface L xs
      in (v # vs, saveError e es))"
| "objectInterface L m [] = (m, None)"
| "objectInterface L m ((k, x) # ms) =
     (let (v, e) = valueInterface L x;
          (m', es) = objectInterface L (map_store k v m) ms
      in (m', saveError e es))"

text \<open>
  Storing a JSON value into a field of type \<open>interface{}\<close> that holds \<open>cur\<close>: a number
  that does not convert is reported and leaves the field as it is.
\<close>

definition store_interface ::
  "('n, 'f) library \<Rightarrow> 'f iface \<times> error option \<Rightarrow> 'n json \<Rightarrow> 'f iface \<times> error option" where
  "store_interface L st x =
     (case st of (cur, saved) \<Rightarrow>
        (case x of
           JNumber n \<Rightarrow>
             (case convertNumber L n of
                None \<Rightarrow> (cur, saveError saved (Some UnmarshalTypeError))
              | Some f \<Rightarrow> (AnyFloat64 f, saved))
         | _ \<Rightarrow> (let (v, e) = valueInterface L x in (v, saveError saved e))))"

text \<open>\<open>fmt.Sprintf("%v", v)\<close> for the values a decode leaves in an \<open>interface{}\<close>.\<close>

fun Sprint :: "('n, 'f) library \<Rightarrow> 'f iface \<Rightarrow> string"
  and Sprint_elems :: "('n, 'f) library \<Rightarrow> 'f iface list \<Rightarrow> string"
  and Sprint_entries :: "('n, 'f) library \<Rightarrow> (string \<times> 'f iface) list \<Rightarrow> string" where
  "Sprint L AnyNil = ''<nil>''"
| "Sprint L (AnyBool b) = (if b then ''true'' else ''false'')"
| "Sprint L (AnyFloat64 f) = formatFloat L f"
| "Sprint L (AnyString s) = s"
| "Sprint L (AnySlice vs) = ''['' @ Sprint_elems L vs @ '']''"
| "Sprint L (AnyMap m) = ''map['' @ Sprint_entries L m @ '']''"
| "Sprint_elems L [] = []"
| "Sprint_elems L [v] = Sprint L v"
| "Sprint_elems L (v # v' # vs) = Sprint L v @ '' '' @ Sprint_elems L (v' # vs)"
| "Sprint_entries L [] = []"
| "Sprint_entries L [(k, v)] = k @ '':'' @ Sprint L v"
| "Sprint_entries L ((k, v) # e # m) = k @ '':'' @ Sprint L v @ '' '' @ Sprint_entries L (e # m)"


section \<open>Line items\<close>

record 'f NoteAttribute =
  Name :: string
  "Value" :: "'f iface"

definition NoteAttribute_zero :: "'f NoteAttribute" where
  "NoteAttribute_zero = \<lparr>Name = [], Value = AnyNil\<rparr>"

definition NoteAttribute_names :: "string list" where
  "NoteAttribute_names = [''name'', ''value'']"

text \<open>
  \<open>LineItem\<close>: the field \<open>Properties\<close> and, as one value \<open>'r\<close>, the fields of fixed
  shape. Their JSON names are those of the struct's tags, in the order of the fields.
\<close>

record ('f, 'r) LineItem =
  Properties :: "'f NoteAttribute slice"
  LineItem_fields :: 'r

definition LineItem_names :: "string list" where
  "LineItem_names =
     [''id'', ''product_id'', ''variant_id'', ''quantity'', ''price'', ''total_discount'',
      ''title'', ''variant_title'', ''name'', ''sku'', ''vendor'', ''gift_card'',
      ''taxable'', ''fulfillment_service'', ''requires_shipping'',
      ''variant_inventory_management'', ''pre_tax_price'', ''properties'',
      ''product_exists'', ''fulfillable_quantity'', ''grams'', ''fulfillment_status'',
      ''tax_lines'', ''origin_location'', ''destination_location'', ''applied_discount'',
      ''discount_allocations'']"

text \<open>
  The fields of the struct \<open>aux\<close> of \<open>LineItem.UnmarshalJSON\<close>: its own field
  \<open>Properties\<close> first, which hides the one of the embedded \<open>*alias\<close>, then the fields of
  the alias.
\<close>

definition LineItem_aux_names :: "string list" where
  "LineItem_aux_names = ''properties'' # filter (\<lambda>n. n \<noteq> ''properties'') LineItem_names"

text \<open>
  How the library decodes the fields of fixed shape is a parameter: from the members of
  the input object that do not select the hidden field, in their order, and the fields'
  values before, to the fields' values after and the error of the decode.
\<close>

type_synonym ('n, 'r) fields_decoder =
  "(string \<times> 'n json) list \<Rightarrow> 'r \<Rightarrow> 'r \<times> error option"

text \<open>
  A \<open>json.RawMessage\<close> is empty until the decoder stores a member's value in it; then it
  is the text of that value, from the value's first byte on.
\<close>

type_synonym 'n RawMessage = "'n json option"

text \<open>The first byte of a value's text is \<open>[\<close> exactly when the value is an array.\<close>

definition first_byte_is_bracket :: "'n json \<Rightarrow> bool" where
  "first_byte_is_bracket v = (case v of JArray xs \<Rightarrow> True | _ \<Rightarrow> False)"

text \<open>
  The members of an object that select the field \<open>name\<close> of a struct, and the others.
\<close>

definition members_of ::
  "('n, 'f) library \<Rightarrow> string list \<Rightarrow> string \<Rightarrow> (string \<times> 'n json) list \<Rightarrow> 'n json list" where
  "members_of L names name ms =
     map snd (filter (\<lambda>(k, x). routes_to L names name k) ms)"

definition other_members ::
  "('n, 'f) library \<Rightarrow> string list \<Rightarrow> string \<Rightarrow> (string \<times> 'n json) list \<Rightarrow>
     (string \<times> 'n json) list" where
  "other_members L names name ms = filter (\<lambda>(k, x). \<not> routes_to L names name k) ms"

text \<open>
  \<open>json.Unmarshal(data, &aux)\<close> in \<open>LineItem.UnmarshalJSON\<close>. The results are: the
  pointer \<open>aux\<close> afterwards (\<open>None\<close> when the decoder has set it to nil, which it does for
  the text \<open>null\<close>), else the raw message in \<open>aux.Properties\<close>; the receiver \<open>li\<close>, which
  the decoder writes through the embedded alias pointer; the error. Every member that
  selects \<open>properties\<close> overwrites the raw message, so the last one stays. A text that is
  neither an object nor \<open>null\<close> does not fit the struct.
\<close>

definition Unmarshal_LineItem_aux ::
  "('n, 'f) library \<Rightarrow> ('n, 'r) fields_decoder \<Rightarrow> 'n bytes \<Rightarrow> ('f, 'r) LineItem \<Rightarrow>
     'n RawMessage option \<times> ('f, 'r) LineItem \<times> error option" where
  "Unmarshal_LineItem_aux L dec data li =
     (case data of
        Malformed \<Rightarrow> (Some None, li, Some SyntaxError)
      | Text v \<Rightarrow>
          (case v of
             JNull \<Rightarrow> (None, li, None)
           | JObject ms \<Rightarrow>
               (let (r, err) = dec (other_members L LineItem_aux_names ''properties'' ms)
                                 (LineItem_fields li);
                    raw = (case members_of L LineItem_aux_names ''properties'' ms of
                             [] \<Rightarrow> None | x # xs \<Rightarrow> Some (last (x # xs)))
                in (Some raw, li\<lparr>LineItem_fields := r\<rparr>, err))
           | _ \<Rightarrow> (Some None, li, Some UnmarshalTypeError)))"

text \<open>
  Decoding a JSON value into a \<open>NoteAttribute\<close> that holds \<open>p\<close>: \<open>null\<close> leaves it as it
  is; an object stores its members in order (a string or \<open>null\<close> into \<open>Name\<close>, anything
  into \<open>Value\<close>); every other value does not fit.
\<close>

definition store_NoteAttribute_member ::
  "('n, 'f) library \<Rightarrow> 'f NoteAttribute \<times> error option \<Rightarrow> string \<times> 'n json \<Rightarrow>
     'f NoteAttribute \<times> error option" where
  "store_NoteAttribute_member L st member =
     (case st of (p, saved) \<Rightarrow>
      (case member of (k, x) \<Rightarrow>
        (case field_of L NoteAttribute_names k of
           None \<Rightarrow> (p, saved)
         | Some field \<Rightarrow>
             if field = ''name'' then
               (case x of
                  JString s \<Rightarrow> (p\<lparr>Name := s\<rparr>, saved)
                | JNull \<Rightarrow> (p, saved)
                | _ \<Rightarrow> (p, saveError saved (Some UnmarshalTypeError)))
             else
               (let (v, e) = store_interface L (Value p, saved) x
                in (p\<lparr>Value := v\<rparr>, e)))))"

definition decode_NoteAttribute ::
  "('n, 'f) library \<Rightarrow> 'f NoteAttribute \<Rightarrow> 'n json \<Rightarrow> 'f NoteAttribute \<times> error option" where
  "decode_NoteAttribute L p v =
     (case v of
        JNull \<Rightarrow> (p, None)
      | JObject ms \<Rightarrow> foldl (store_NoteAttribute_member L) (p, None) ms
      | _ \<Rightarrow> (p, Some UnmarshalTypeError))"

text \<open>\<open>var p NoteAttribute; err = json.Unmarshal(raw, &p)\<close>\<close>

definition Unmarshal_NoteAttribute ::
  "('n, 'f) library \<Rightarrow> 'n json \<Rightarrow> 'f NoteAttribute \<times> error option" where
  "Unmarshal_NoteAttribute L raw = decode_NoteAttribute L NoteAttribute_zero raw"

text \<open>
  \<open>var p []NoteAttribute; err = json.Unmarshal(raw, &p)\<close>: \<open>null\<close> leaves the nil slice;
  an array gives a slice of its length (not nil, also when it is empty), each element
  decoded into a fresh \<open>NoteAttribute\<close>; every other value does not fit.
\<close>

fun decode_elements ::
  "('n, 'f) library \<Rightarrow> 'n json list \<Rightarrow> 'f NoteAttribute list \<times> error option" where
  "decode_elements L [] = ([], None)"
| "decode_elements L (x # xs) =
     (let (p, e) = decode_NoteAttribute L NoteAttribute_zero x;
          (ps, es) = decode_elements L xs
      in (p # ps, saveError e es))"

definition Unmarshal_NoteAttributes ::
  "('n, 'f) library \<Rightarrow> 'n json \<Rightarrow> 'f NoteAttribute slice \<times> error option" where
  "Unmarshal_NoteAttributes L raw =
     (case raw of
        JNull \<Rightarrow> (None, None)
      | JArray xs \<Rightarrow> (let (ps, e) = decode_elements L xs in (Some ps, e))
      | _ \<Rightarrow> (None, Some UnmarshalTypeError))"

text \<open>
  \<open>func (li *LineItem) UnmarshalJSON(data []byte) error\<close>. The receiver is passed in and
  returned; \<open>aux.Properties\<close> of a nil \<open>aux\<close> panics.
\<close>

definition LineItem_UnmarshalJSON ::
  "('n, 'f) library \<Rightarrow> ('n, 'r) fields_decoder \<Rightarrow> ('f, 'r) LineItem \<Rightarrow> 'n bytes \<Rightarrow>
     (('f, 'r) LineItem, error) outcome" where
  "LineItem_UnmarshalJSON L dec li data =
     (case Unmarshal_LineItem_aux L dec data li of (aux, li', err) \<Rightarrow>
        (case err of
           Some e \<Rightarrow> Return li' (Some e)
         | None \<Rightarrow>
             (case aux of
                None \<Rightarrow> Panic
              | Some aux_Properties \<Rightarrow>
                  (case aux_Properties of
                     None \<Rightarrow> Return li' None
                   | Some raw \<Rightarrow>
                       if first_byte_is_bracket raw then
                         (case Unmarshal_NoteAttributes L raw of
                            (p, Some e) \<Rightarrow> Return li' (Some e)
                          | (p, None) \<Rightarrow> Return (li'\<lparr>Properties := p\<rparr>) None)
                       else
                         (case Unmarshal_NoteAttribute L raw of
                            (p, Some e) \<Rightarrow> Return li' (Some e)
                          | (p, None) \<Rightarrow>
                              if Name p = [] \<and> Value p = AnyNil
                              then Return (li'\<lparr>Properties := None\<rparr>) None
                              else Return (li'\<lparr>Properties := Some [p]\<rparr>) None)))))"


subsection \<open>Encoding a line item\<close>

text \<open>
  \<open>LineItem\<close> has no encoder of its own: \<open>json.Marshal\<close> writes its fields in order, and
  leaves out a field tagged \<open>omitempty\<close> whose value is empty (a slice of length zero,
  an empty string, a nil interface). \<open>None\<close> is a failed encode.
\<close>

fun encode_value :: "('n, 'f) library \<Rightarrow> 'f iface \<Rightarrow> 'n json option"
  and encode_values :: "('n, 'f) library \<Rightarrow> 'f iface list \<Rightarrow> 'n json list option"
  and encode_entries ::
    "('n, 'f) library \<Rightarrow> (string \<times> 'f iface) list \<Rightarrow> (string \<times> 'n json) list option" where
  "encode_value L AnyNil = Some JNull"
| "encode_value L (AnyBool b) = Some (JBool b)"
| "encode_value L (AnyFloat64 f) = map_option JNumber (encodeFloat L f)"
| "encode_value L (AnyString s) = Some (JString (toValidUTF8 L s))"
| "encode_value L (AnySlice vs) = map_option JArray (encode_values L vs)"
| "encode_value L (AnyMap m) = map_option JObject (encode_entries L m)"
| "encode_values L [] = Some []"
| "encode_values L (v # vs) =
     (case encode_value L v of
        None \<Rightarrow> None
      | Some j \<Rightarrow> map_option ((#) j) (encode_values L vs))"
| "encode_entries L [] = Some []"
| "encode_entries L ((k, v) # m) =
     (case encode_value L v of
        None \<Rightarrow> None
      | Some j \<Rightarrow> map_option ((#) (toValidUTF8 L k, j)) (encode_entries L m))"





section \<open>Shipping lines\<close>

record 'r ShippingLines =
  RequestedFulfillmentServiceId :: string
  ShippingLines_fields :: 'r

definition ShippingLines_names :: "string list" where
  "ShippingLines_names =
     [''id'', ''title'', ''price'', ''price_set'', ''discounted_price'',
      ''discounted_price_set'', ''code'', ''source'', ''phone'',
      ''requested_fulfillment_service_id'', ''delivery_category'', ''carrier_identifier'',
      ''tax_lines'', ''handle'']"

text \<open>
  The fields of the struct \<open>aux\<close> of \<open>ShippingLines.UnmarshalJSON\<close>: those of the embedded
  \<open>*alias\<close> first, then its own field \<open>RequestedFulfillmentServiceId\<close>, which hides the one
  of the alias.
\<close>

definition ShippingLines_aux_names :: "string list" where
  "ShippingLines_aux_names =
     filter (\<lambda>n. n \<noteq> ''requested_fulfillment_service_id'') ShippingLines_names
       @ [''requested_fulfillment_service_id'']"

text \<open>
  \<open>json.Unmarshal(data, &aux)\<close> in \<open>ShippingLines.UnmarshalJSON\<close>. The results are: the
  pointer \<open>aux\<close> afterwards (\<open>None\<close> when the decoder has set it to nil), else what
  \<open>aux.RequestedFulfillmentServiceId\<close> holds; the receiver; the error. When both the
  fixed fields and the identifier fail, the library reports the failure that comes first
  in the input; the embedding reports that of the fixed fields.
\<close>

definition Unmarshal_ShippingLines_aux ::
  "('n, 'f) library \<Rightarrow> ('n, 'r) fields_decoder \<Rightarrow> 'n bytes \<Rightarrow> 'r ShippingLines \<Rightarrow>
     'f iface option \<times> 'r ShippingLines \<times> error option" where
  "Unmarshal_ShippingLines_aux L dec data sl =
     (case data of
        Malformed \<Rightarrow> (Some AnyNil, sl, Some SyntaxError)
      | Text v \<Rightarrow>
          (case v of
             JNull \<Rightarrow> (None, sl, None)
           | JObject ms \<Rightarrow>
               (let (r, err) = dec (other_members L ShippingLines_aux_names
                                      ''requested_fulfillment_service_id'' ms)
                                 (ShippingLines_fields sl);
                    (v, err') = foldl (store_interface L) (AnyNil, None)
                                  (members_of L ShippingLines_aux_names
                                     ''requested_fulfillment_service_id'' ms)
                in (Some v, sl\<lparr>ShippingLines_fields := r\<rparr>, saveError err err'))
           | _ \<Rightarrow> (Some AnyNil, sl, Some UnmarshalTypeError)))"

text \<open>\<open>func (sl *ShippingLines) UnmarshalJSON(data []byte) error\<close>\<close>

definition ShippingLines_UnmarshalJSON ::
  "('n, 'f) library \<Rightarrow> ('n, 'r) fields_decoder \<Rightarrow> 'r ShippingLines \<Rightarrow> 'n bytes \<Rightarrow>
     ('r ShippingLines, error) outcome" where
  "ShippingLines_UnmarshalJSON L dec sl data =
     (case Unmarshal_ShippingLines_aux L dec data sl of (aux, sl', err) \<Rightarrow>
        (case err of
           Some e \<Rightarrow> Return sl' (Some e)
         | None \<Rightarrow>
             (case aux of
                None \<Rightarrow> Panic
              | Some aux_RequestedFulfillmentServiceId \<Rightarrow>
                  (case aux_RequestedFulfillmentServiceId of
                     AnyNil \<Rightarrow> Return (sl'\<lparr>RequestedFulfillmentServiceId := []\<rparr>) None
                   | _ \<Rightarrow>
                       Return (sl'\<lparr>RequestedFulfillmentServiceId :=
                                      Sprint L aux_RequestedFulfillmentServiceId\<rparr>) None))))"

section \<open>An instance of the libraries\<close>

text \<open>
  For running the decoders on concrete inputs: member names and strings are ASCII (the
  folding is that of the ASCII letters, and the encoder writes a string as it is), and a
  number literal is an integer from 0 to 65535, kept as a 16-bit word. Such a number is
  a \<open>float64\<close> exactly, \<open>%v\<close> prints it as its decimal digits, and the encoder writes the
  same digits.
\<close>

definition ascii_upper :: "char \<Rightarrow> char" where
  "ascii_upper c =
     (if CHR ''a'' \<le> c \<and> c \<le> CHR ''z'' then char_of (of_char c - (32 :: nat)) else c)"

fun decimal :: "nat \<Rightarrow> string" where
  "decimal n =
     (if n < 10 then [char_of (48 + n)]
      else decimal (n div 10) @ [char_of (48 + n mod 10)])"

definition small_library :: "(16 word, 16 word) library" where
  "small_library =
     \<lparr>foldName = map ascii_upper,
      convertNumber = Some,
      formatFloat = (\<lambda>f. decimal (unat f)),
      encodeFloat = Some,
      toValidUTF8 = (\<lambda>s. s)\<rparr>"

text \<open>A struct none of whose fixed fields is looked at: every other member is skipped.\<close>

definition skip_fields :: "('n, unit) fields_decoder" where
  "skip_fields ms r = ((), None)"


text \<open>The zero values of the two structs, the receivers a decode starts from.\<close>

definition LineItem_zero :: "('f, unit) LineItem" where
  "LineItem_zero = \<lparr>Properties = None, LineItem_fields = ()\<rparr>"


text \<open>The object form of a property: \<^verbatim>\<open>{"name": name, "value": v}\<close>.\<close>

definition property_object :: "string \<Rightarrow> 'n json \<Rightarrow> 'n json" where
  "property_object name v = JObject [(''name'', JString name), (''value'', v)]"

section \<open>Properties of the pagination walker\<close>

subsection \<open>One iteration of the loop\<close>

lemma ListAll_loop_error:
  "ListWithPagination client options w = ((entities, pagination, Some err), w') \<Longrightarrow>
   ListAll_loop client collector options w = Some (Return collector (Some err), w')"
  by (subst ListAll_loop.simps) simp

lemma ListAll_loop_last:
  "ListWithPagination client options w =
     ((entities, Some \<lparr>NextPageOptions = None\<rparr>, None), w') \<Longrightarrow>
   ListAll_loop client collector options w =
     Some (Return (append_slice collector entities) None, w')"
  by (subst ListAll_loop.simps) simp

lemma ListAll_loop_next:
  "ListWithPagination client options w =
     ((entities, Some \<lparr>NextPageOptions = Some nxt\<rparr>, None), w') \<Longrightarrow>
   ListAll_loop client collector options w =
     ListAll_loop client (append_slice collector entities) nxt w'"
  by (subst ListAll_loop.simps) simp

lemma ListAll_loop_nil_pagination:
  "ListWithPagination client options w = ((entities, None, None), w') \<Longrightarrow>
   ListAll_loop client collector options w = Some (Panic, w')"
  by (subst ListAll_loop.simps) simp

lemma append_slice_Some: "append_slice (Some xs) t = Some (xs @ elems t)"
  by (simp add: append_slice_def)

lemma append_slice_non_nil: "s \<noteq> None \<Longrightarrow> append_slice s t \<noteq> None"
  by (auto simp: append_slice_def)

subsection \<open>The scripted client, one call\<close>

lemma scripted_page:
  "ListWithPagination scripted_client options
     \<lparr>pending = page_reply records nxt # rs, fallback = fb, calls = cs\<rparr>
   = ((records, Some \<lparr>NextPageOptions = nxt\<rparr>, None),
      \<lparr>pending = rs, fallback = fb, calls = cs @ [orders_call options]\<rparr>)"
  by (simp add: ListWithPagination_def scripted_client_def page_reply_def orders_call_def)

lemma scripted_error:
  "ListWithPagination scripted_client options
     \<lparr>pending = error_reply records pg err # rs, fallback = fb, calls = cs\<rparr>
   = ((None, None, Some err),
      \<lparr>pending = rs, fallback = fb, calls = cs @ [orders_call options]\<rparr>)"
  by (simp add: ListWithPagination_def scripted_client_def error_reply_def orders_call_def)

lemma next_pages_simps:
  "next_pages [] = []"
  "next_pages ((records, nxt) # pages) = page_reply records (Some nxt) # next_pages pages"
  by (simp_all add: next_pages_def)

lemma records_of_simps:
  "records_of [] = []"
  "records_of ((records, nxt) # pages) = elems records @ records_of pages"
  by (simp_all add: records_of_def)

subsection \<open>Walking a script\<close>

lemma ListAll_loop_pages_then_last:
  "ListAll_loop scripted_client (Some acc) options
     \<lparr>pending = next_pages pages @ page_reply records None # rest,
      fallback = fb, calls = cs\<rparr>
   = Some (Return (Some (acc @ records_of pages @ elems records)) None,
       \<lparr>pending = rest, fallback = fb,
        calls = cs @ map orders_call (options # map snd pages)\<rparr>)"
proof (induction pages arbitrary: acc options cs)
  case Nil
  show ?case
    by (simp add: next_pages_simps records_of_simps ListAll_loop_last [OF scripted_page]
          append_slice_Some)
next
  case (Cons p pages)
  obtain r nxt where p: "p = (r, nxt)" by (cases p)
  have "ListAll_loop scripted_client (Some acc) options
          \<lparr>pending = next_pages (p # pages) @ page_reply records None # rest,
           fallback = fb, calls = cs\<rparr>
        = ListAll_loop scripted_client (Some (acc @ elems r)) nxt
          \<lparr>pending = next_pages pages @ page_reply records None # rest, fallback = fb,
           calls = cs @ [orders_call options]\<rparr>"
    unfolding p
    by (simp add: next_pages_simps ListAll_loop_next [OF scripted_page] append_slice_Some)
  then show ?case
    unfolding p by (simp add: Cons.IH records_of_simps)
qed

lemma ListAll_loop_pages_then_error:
  "ListAll_loop scripted_client (Some acc) options
     \<lparr>pending = next_pages pages @ error_reply records pg err # rest,
      fallback = fb, calls = cs\<rparr>
   = Some (Return (Some (acc @ records_of pages)) (Some err),
       \<lparr>pending = rest, fallback = fb,
        calls = cs @ map orders_call (options # map snd pages)\<rparr>)"
proof (induction pages arbitrary: acc options cs)
  case Nil
  show ?case
    by (simp add: next_pages_simps records_of_simps ListAll_loop_error [OF scripted_error])
next
  case (Cons p pages)
  obtain r nxt where p: "p = (r, nxt)" by (cases p)
  have "ListAll_loop scripted_client (Some acc) options
          \<lparr>pending = next_pages (p # pages) @ error_reply records pg err # rest,
           fallback = fb, calls = cs\<rparr>
        = ListAll_loop scripted_client (Some (acc @ elems r)) nxt
          \<lparr>pending = next_pages pages @ error_reply records pg err # rest, fallback = fb,
           calls = cs @ [orders_call options]\<rparr>"
    unfolding p
    by (simp add: next_pages_simps ListAll_loop_next [OF scripted_page] append_slice_Some)
  then show ?case
    unfolding p by (simp add: Cons.IH records_of_simps)
qed

text \<open>The loop follows any client along the pages the client serves.\<close>

lemma ListAll_loop_walk:
  "walk client options w pages = Some (options', w') \<Longrightarrow>
   ListAll_loop client (Some acc) options w =
     ListAll_loop client (Some (acc @ records_of pages)) options' w'"
proof (induction pages arbitrary: acc options w)
  case Nil
  then show ?case by (simp add: records_of_simps)
next
  case (Cons p pages)
  obtain r nxt where p: "p = (r, nxt)" by (cases p)
  let ?w1 = "snd (ListWithPagination client options w)"
  from Cons.prems have page: "ListWithPagination client options w =
      ((r, Some \<lparr>NextPageOptions = Some nxt\<rparr>, None), ?w1)"
    and rest: "walk client nxt ?w1 pages = Some (options', w')"
    unfolding p by (auto split: if_splits intro: prod_eqI)
  have "ListAll_loop client (Some acc) options w =
      ListAll_loop client (Some (acc @ elems r)) nxt ?w1"
    by (simp add: ListAll_loop_next [OF page] append_slice_Some)
  also have "\<dots> = ListAll_loop client (Some ((acc @ elems r) @ records_of pages)) options' w'"
    by (rule Cons.IH [OF rest])
  finally show ?case by (simp add: p records_of_simps)
qed

text \<open>
  Whatever the client does, a collector that is not nil stays so on every path on
  which the loop returns.
\<close>

lemma ListAll_loop_non_nil:
  assumes "ListAll_loop client collector options w = Some y"
  shows "\<forall>c e w'. y = (Return c e, w') \<longrightarrow> collector \<noteq> None \<longrightarrow> c \<noteq> None"
  using assms
proof (induction rule: ListAll_loop.raw_induct [rotated, consumes 1, case_names step])
  case (step loop client collector options w y)
  obtain entities pagination err w1
    where f: "ListWithPagination client options w = ((entities, pagination, err), w1)"
    by (metis prod.exhaust)
  show ?case
  proof (intro allI impI)
    fix c e w'
    assume y: "y = (Return c e, w')" and nn: "collector \<noteq> None"
    note app = append_slice_non_nil [OF nn, of entities]
    show "c \<noteq> None"
    proof (cases err)
      case (Some er)
      with step(2) f y nn show ?thesis by (auto split: option.splits)
    next
      case None
      note err = this
      show ?thesis
      proof (cases pagination)
        case None
        with step(2) f y err show ?thesis by (auto split: option.splits)
      next
        case (Some pg)
        note pg = this
        show ?thesis
        proof (cases "NextPageOptions pg")
          case None
          with step(2) f y err pg app show ?thesis by auto
        next
          case (Some nxt)
          with step(2) f err pg
          have "loop client (append_slice collector entities) nxt w1 = Some y" by simp
          from step(1) [OF this] y app show ?thesis by blast
        qed
      qed
    qed
  qed
qed

subsection \<open>Claims on \<open>ListAll\<close>\<close>

text \<open>
  Claim C1. Let a collaborator answer with \<open>N\<close> successful pages, the first \<open>N - 1\<close>
  of them (\<open>pages\<close>) each carrying records and next-page options, the last one carrying
  records and no next-page options. Then \<open>ListAll\<close> returns, with the nil error, exactly
  the records of all pages concatenated in the order the pages arrived. This holds for
  every client that serves these pages when it is asked first with the options
  \<open>ListAll\<close> was given and then with the next-page options of the page before, and the
  world \<open>ListAll\<close> leaves is the one after these \<open>N\<close> fetches. The scripted client shows
  what it was asked: \<open>N\<close> fetches, the first with the given options and every later one
  with the next-page options of the page before, and the rest of the script untouched.
  With \<open>pages = []\<close> and no records this is the empty first page: an empty sequence and
  no error.
\<close>

theorem ListAll_all_pages:
  "(walk client options w pages = Some (options', w') \<and>
    ListWithPagination client options' w' =
      ((records, Some \<lparr>NextPageOptions = None\<rparr>, None), w'') \<longrightarrow>
    ListAll client options w =
      Some (Return (Some (records_of pages @ elems records)) None, w'')) \<and>
   ListAll scripted_client first
     \<lparr>pending = next_pages pages @ page_reply records None # rest,
      fallback = fb, calls = []\<rparr>
   = Some (Return (Some (records_of pages @ elems records)) None,
       \<lparr>pending = rest, fallback = fb,
        calls = map orders_call (first # map snd pages)\<rparr>)"
proof (intro conjI impI)
  assume "walk client options w pages = Some (options', w') \<and>
    ListWithPagination client options' w' =
      ((records, Some \<lparr>NextPageOptions = None\<rparr>, None), w'')"
  then have served: "walk client options w pages = Some (options', w')"
    and last: "ListWithPagination client options' w' =
      ((records, Some \<lparr>NextPageOptions = None\<rparr>, None), w'')"
    by simp_all
  show "ListAll client options w =
      Some (Return (Some (records_of pages @ elems records)) None, w'')"
    unfolding ListAll_def ListAll_loop_walk [OF served]
    by (simp add: ListAll_loop_last [OF last] append_slice_Some)
next
  show "ListAll scripted_client first
     \<lparr>pending = next_pages pages @ page_reply records None # rest,
      fallback = fb, calls = []\<rparr>
   = Some (Return (Some (records_of pages @ elems records)) None,
       \<lparr>pending = rest, fallback = fb,
        calls = map orders_call (first # map snd pages)\<rparr>)"
    unfolding ListAll_def by (simp add: ListAll_loop_pages_then_last)
qed

theorem ListAll_all_pages_witness:
  "walk scripted_client ''limit=1''
     \<lparr>pending = [page_reply (Some [1::nat]) (Some ''page_info=b''),
                 page_reply (Some [2]) (Some ''page_info=c''),
                 page_reply (Some [3]) None],
      fallback = error_reply None None ''unexpected call'', calls = []\<rparr>
     [(Some [1], ''page_info=b''), (Some [2], ''page_info=c'')]
   = Some (''page_info=c'',
       \<lparr>pending = [page_reply (Some [3]) None],
        fallback = error_reply None None ''unexpected call'',
        calls = [(''orders.json'', ''limit=1''), (''orders.json'', ''page_info=b'')]\<rparr>) \<and>
   ListAll scripted_client ''limit=1''
     \<lparr>pending = [page_reply (Some [1::nat]) (Some ''page_info=b''),
                 page_reply (Some [2]) (Some ''page_info=c''),
                 page_reply (Some [3]) None],
      fallback = error_reply None None ''unexpected call'', calls = []\<rparr>
   = Some (Return (Some [1, 2, 3]) None,
       \<lparr>pending = [], fallback = error_reply None None ''unexpected call'',
        calls = [(''orders.json'', ''limit=1''), (''orders.json'', ''page_info=b''),
                 (''orders.json'', ''page_info=c'')]\<rparr>)"
proof -
  let ?fb = "error_reply (None :: nat slice) None ''unexpected call''"
  let ?w = "\<lparr>pending = [page_reply (Some [1::nat]) (Some ''page_info=b''),
                 page_reply (Some [2]) (Some ''page_info=c''),
                 page_reply (Some [3]) None],
      fallback = ?fb, calls = []\<rparr>"
  let ?w' = "\<lparr>pending = [page_reply (Some [3::nat]) None], fallback = ?fb,
      calls = [(''orders.json'', ''limit=1''), (''orders.json'', ''page_info=b'')]\<rparr>"
  let ?w'' = "\<lparr>pending = [], fallback = ?fb,
      calls = [(''orders.json'', ''limit=1''), (''orders.json'', ''page_info=b''),
               (''orders.json'', ''page_info=c'')]\<rparr>"
  let ?pages = "[(Some [1::nat], ''page_info=b''), (Some [2], ''page_info=c'')]"
  have served: "walk scripted_client ''limit=1'' ?w ?pages = Some (''page_info=c'', ?w')"
    by (simp add: scripted_page orders_call_def ordersBasePath_def)
  have last: "ListWithPagination scripted_client ''page_info=c'' ?w' =
      ((Some [3], Some \<lparr>NextPageOptions = None\<rparr>, None), ?w'')"
    by (simp add: scripted_page orders_call_def ordersBasePath_def)
  from ListAll_all_pages [THEN conjunct1, THEN mp, OF conjI, OF served last]
  have "ListAll scripted_client ''limit=1'' ?w = Some (Return (Some [1, 2, 3]) None, ?w'')"
    by (simp add: records_of_def elems_def)
  with served show ?thesis by simp
qed

text \<open>
  Claim C2. Let the first \<open>K\<close> fetches succeed, each page naming a successor, and let
  fetch \<open>K + 1\<close> fail with \<open>err\<close>. Then \<open>ListAll\<close> returns the records of the \<open>K\<close> pages,
  in order, together with \<open>err\<close>. This holds for every client, and the world \<open>ListAll\<close>
  leaves is the one right after the failed fetch. The scripted client shows that it was
  asked \<open>K + 1\<close> times and no more: the replies that follow the failure in the script
  are still pending.
\<close>

theorem ListAll_partial_on_error:
  "(walk client options w pages = Some (options', w') \<and>
    ListWithPagination client options' w' = ((entities, pagination, Some err), w'') \<longrightarrow>
    ListAll client options w = Some (Return (Some (records_of pages)) (Some err), w'')) \<and>
   ListAll scripted_client first
     \<lparr>pending = next_pages pages @ error_reply records pg err # rest,
      fallback = fb, calls = []\<rparr>
   = Some (Return (Some (records_of pages)) (Some err),
       \<lparr>pending = rest, fallback = fb,
        calls = map orders_call (first # map snd pages)\<rparr>)"
proof (intro conjI impI)
  assume "walk client options w pages = Some (options', w') \<and>
    ListWithPagination client options' w' = ((entities, pagination, Some err), w'')"
  then have served: "walk client options w pages = Some (options', w')"
    and failed: "ListWithPagination client options' w' = ((entities, pagination, Some err), w'')"
    by simp_all
  show "ListAll client options w = Some (Return (Some (records_of pages)) (Some err), w'')"
    unfolding ListAll_def ListAll_loop_walk [OF served]
    by (simp add: ListAll_loop_error [OF failed])
next
  show "ListAll scripted_client first
     \<lparr>pending = next_pages pages @ error_reply records pg err # rest,
      fallback = fb, calls = []\<rparr>
   = Some (Return (Some (records_of pages)) (Some err),
       \<lparr>pending = rest, fallback = fb,
        calls = map orders_call (first # map snd pages)\<rparr>)"
    unfolding ListAll_def by (simp add: ListAll_loop_pages_then_error)
qed

theorem ListAll_partial_on_error_witness:
  "walk scripted_client ''limit=1''
     \<lparr>pending = [page_reply (Some [1::nat]) (Some ''page_info=b''),
                 page_reply (Some [2]) (Some ''page_info=c''),
                 error_reply None None ''timeout'',
                 page_reply (Some [4]) None],
      fallback = error_reply None None ''unexpected call'', calls = []\<rparr>
     [(Some [1], ''page_info=b''), (Some [2], ''page_info=c'')]
   = Some (''page_info=c'',
       \<lparr>pending = [error_reply None None ''timeout'', page_reply (Some [4]) None],
        fallback = error_reply None None ''unexpected call'',
        calls = [(''orders.json'', ''limit=1''), (''orders.json'', ''page_info=b'')]\<rparr>) \<and>
   ListAll scripted_client ''limit=1''
     \<lparr>pending = [page_reply (Some [1::nat]) (Some ''page_info=b''),
                 page_reply (Some [2]) (Some ''page_info=c''),
                 error_reply None None ''timeout'',
                 page_reply (Some [4]) None],
      fallback = error_reply None None ''unexpected call'', calls = []\<rparr>
   = Some (Return (Some [1, 2]) (Some ''timeout''),
       \<lparr>pending = [page_reply (Some [4]) None],
        fallback = error_reply None None ''unexpected call'',
        calls = [(''orders.json'', ''limit=1''), (''orders.json'', ''page_info=b''),
                 (''orders.json'', ''page_info=c'')]\<rparr>)"
proof -
  let ?fb = "error_reply (None :: nat slice) None ''unexpected call''"
  let ?w = "\<lparr>pending = [page_reply (Some [1::nat]) (Some ''page_info=b''),
                 page_reply (Some [2]) (Some ''page_info=c''),
                 error_reply None None ''timeout'',
                 page_reply (Some [4]) None],
      fallback = ?fb, calls = []\<rparr>"
  let ?w' = "\<lparr>pending = [error_reply None None ''timeout'', page_reply (Some [4::nat]) None],
      fallback = ?fb,
      calls = [(''orders.json'', ''limit=1''), (''orders.json'', ''page_info=b'')]\<rparr>"
  let ?w'' = "\<lparr>pending = [page_reply (Some [4::nat]) None], fallback = ?fb,
      calls = [(''orders.json'', ''limit=1''), (''orders.json'', ''page_info=b''),
               (''orders.json'', ''page_info=c'')]\<rparr>"
  let ?pages = "[(Some [1::nat], ''page_info=b''), (Some [2], ''page_info=c'')]"
  have served: "walk scripted_client ''limit=1'' ?w ?pages = Some (''page_info=c'', ?w')"
    by (simp add: scripted_page orders_call_def ordersBasePath_def)
  have failed: "ListWithPagination scripted_client ''page_info=c'' ?w' =
      ((None, None, Some ''timeout''), ?w'')"
    by (simp add: scripted_error orders_call_def ordersBasePath_def)
  from ListAll_partial_on_error [THEN conjunct1, THEN mp, OF conjI, OF served failed]
  have "ListAll scripted_client ''limit=1'' ?w =
      Some (Return (Some [1, 2]) (Some ''timeout''), ?w'')"
    by (simp add: records_of_def elems_def)
  with served show ?thesis by simp
qed

text \<open>
  Claim C9. For every client, every options value and every world: when \<open>ListAll\<close>
  returns, the sequence it returns is not the nil slice, on the error path as well; and
  when the very first fetch fails, \<open>ListAll\<close> returns the empty non-nil sequence together
  with that error; and when the fetch after \<open>K\<close> successful pages fails, the sequence
  holds exactly the records of those \<open>K\<close> pages.
\<close>

theorem ListAll_never_nil:
  "(ListAll client options w = Some (Return c e, w') \<longrightarrow> c \<noteq> None) \<and>
   (reply_err (fst (client (ordersBasePath @ ''.json'') options w)) = Some err \<longrightarrow>
      ListAll client options w =
        Some (Return (Some []) (Some err), snd (client (ordersBasePath @ ''.json'') options w))) \<and>
   (\<exists>w'. ListAll scripted_client first
            \<lparr>pending = next_pages pages @ error_reply records pg failure # rest,
             fallback = fb, calls = []\<rparr>
          = Some (Return (Some (records_of pages)) (Some failure), w'))"
proof (intro conjI impI)
  have "ListAll scripted_client first
            \<lparr>pending = next_pages pages @ error_reply records pg failure # rest,
             fallback = fb, calls = []\<rparr>
          = Some (Return (Some (records_of pages)) (Some failure),
              \<lparr>pending = rest, fallback = fb,
               calls = map orders_call (first # map snd pages)\<rparr>)"
    unfolding ListAll_def by (simp add: ListAll_loop_pages_then_error)
  then show "\<exists>w'. ListAll scripted_client first
            \<lparr>pending = next_pages pages @ error_reply records pg failure # rest,
             fallback = fb, calls = []\<rparr>
          = Some (Return (Some (records_of pages)) (Some failure), w')"
    by (rule exI)
next
  assume "ListAll client options w = Some (Return c e, w')"
  then have "ListAll_loop client (Some []) options w = Some (Return c e, w')"
    by (simp add: ListAll_def)
  from ListAll_loop_non_nil [OF this] show "c \<noteq> None" by blast
next
  assume failed: "reply_err (fst (client (ordersBasePath @ ''.json'') options w)) = Some err"
  obtain reply w1 where reply: "client (ordersBasePath @ ''.json'') options w = (reply, w1)"
    by (cases "client (ordersBasePath @ ''.json'') options w")
  with failed have "ListWithPagination client options w =
      ((None, None, Some err), snd (client (ordersBasePath @ ''.json'') options w))"
    by (simp add: ListWithPagination_def)
  from ListAll_loop_error [OF this]
  show "ListAll client options w =
      Some (Return (Some []) (Some err), snd (client (ordersBasePath @ ''.json'') options w))"
    by (simp add: ListAll_def)
qed

theorem ListAll_never_nil_witness:
  "ListAll scripted_client ''limit=1''
     \<lparr>pending = [error_reply (None :: nat slice) None ''timeout''],
      fallback = error_reply None None ''unexpected call'', calls = []\<rparr>
   = Some (Return (Some []) (Some ''timeout''),
       \<lparr>pending = [], fallback = error_reply None None ''unexpected call'',
        calls = [(''orders.json'', ''limit=1'')]\<rparr>)
   \<and> (Some [] :: nat slice) \<noteq> None"
proof -
  let ?w = "\<lparr>pending = [error_reply (None :: nat slice) None ''timeout''],
      fallback = error_reply None None ''unexpected call'',
      calls = ([] :: (string \<times> string) list)\<rparr>"
  have first: "reply_err (fst (scripted_client (ordersBasePath @ ''.json'') ''limit=1'' ?w))
      = Some ''timeout''"
    by (simp add: scripted_client_def error_reply_def)
  note never = ListAll_never_nil
    [where client = scripted_client and options = "''limit=1''" and w = ?w
       and err = "''timeout''" and c = "Some []" and e = "Some ''timeout''"
       and w' = "snd (scripted_client (ordersBasePath @ ''.json'') ''limit=1'' ?w)"]
  have run: "ListAll scripted_client ''limit=1'' ?w =
      Some (Return (Some []) (Some ''timeout''),
        snd (scripted_client (ordersBasePath @ ''.json'') ''limit=1'' ?w))"
    by (rule never [THEN conjunct2, THEN conjunct1, THEN mp, OF first])
  have "(Some [] :: nat slice) \<noteq> None"
    by (rule never [THEN conjunct1, THEN mp, OF run])
  with run show ?thesis
    by (simp add: scripted_client_def ordersBasePath_def)
qed

section \<open>Properties of the decoders\<close>

subsection \<open>Members of an object\<close>

lemma members_of_append:
  "members_of L names name (ms @ ms') = members_of L names name ms @ members_of L names name ms'"
  by (simp add: members_of_def)

lemma members_of_Cons:
  "members_of L names name ((k, x) # ms) =
     (if routes_to L names name k then x # members_of L names name ms
      else members_of L names name ms)"
  by (simp add: members_of_def)

lemma other_members_append:
  "other_members L names name (ms @ ms') =
     other_members L names name ms @ other_members L names name ms'"
  by (simp add: other_members_def)

lemma other_members_Cons:
  "other_members L names name ((k, x) # ms) =
     (if routes_to L names name k then other_members L names name ms
      else (k, x) # other_members L names name ms)"
  by (simp add: other_members_def)

lemma other_members_routed:
  "routes_to L names name k \<Longrightarrow>
   other_members L names name (pre @ (k, x) # post) = other_members L names name (pre @ post)"
  by (simp add: other_members_append other_members_Cons)

lemma routes_to_exact: "name \<in> set names \<Longrightarrow> routes_to L names name name"
  by (simp add: routes_to_def field_of_def)

lemma properties_routes: "routes_to L LineItem_aux_names ''properties'' ''properties''"
  by (simp add: routes_to_def field_of_def LineItem_aux_names_def)

lemma rfs_routes:
  "routes_to L ShippingLines_aux_names ''requested_fulfillment_service_id''
     ''requested_fulfillment_service_id''"
  by (simp add: routes_to_def field_of_def ShippingLines_aux_names_def)

lemma properties_member_once:
  "members_of L LineItem_aux_names ''properties'' [(''properties'', x)] = [x]"
  by (simp add: members_of_def routes_to_def field_of_def LineItem_aux_names_def)


subsection \<open>Errors and values of type \<open>interface{}\<close>\<close>

lemma saveError_None [simp]: "saveError None e = e" "saveError e None = e"
  by (simp_all add: saveError_def split: option.splits)

lemma saveError_eq_None: "saveError a b = None \<longleftrightarrow> a = None \<and> b = None"
  by (simp add: saveError_def split: option.splits)

lemma store_interface_fresh:
  "store_interface L (AnyNil, None) JNull = (AnyNil, None)"
  "store_interface L (AnyNil, None) (JString s) = (AnyString s, None)"
  "convertNumber L n = Some f \<Longrightarrow> store_interface L (AnyNil, None) (JNumber n) = (AnyFloat64 f, None)"
  "convertNumber L n = None \<Longrightarrow>
     store_interface L (AnyNil, None) (JNumber n) = (AnyNil, Some UnmarshalTypeError)"
  by (simp_all add: store_interface_def)


lemma store_interface_ok:
  "snd (valueInterface L v) = None \<Longrightarrow>
   store_interface L (cur, None) v = (fst (valueInterface L v), None)"
  by (cases v) (auto simp: store_interface_def split: option.splits prod.splits)

subsection \<open>Decoding properties\<close>

lemma decode_elements_map:
  "fst (decode_elements L js) = map (\<lambda>x. fst (Unmarshal_NoteAttribute L x)) js"
  by (induction js) (auto simp: Unmarshal_NoteAttribute_def split: prod.splits)

lemma decode_elements_ok:
  "snd (decode_elements L js) = None \<longleftrightarrow> (\<forall>x \<in> set js. snd (Unmarshal_NoteAttribute L x) = None)"
  by (induction js) (auto simp: Unmarshal_NoteAttribute_def saveError_eq_None split: prod.splits)

lemma Unmarshal_NoteAttributes_singleton:
  "Unmarshal_NoteAttributes L (JArray [x]) =
     (Some [fst (Unmarshal_NoteAttribute L x)], snd (Unmarshal_NoteAttribute L x))"
  by (simp add: Unmarshal_NoteAttributes_def Unmarshal_NoteAttribute_def split: prod.splits)

lemma Unmarshal_property_object:
  "Unmarshal_NoteAttribute L (property_object name v) =
     (\<lparr>Name = name, Value = fst (store_interface L (AnyNil, None) v)\<rparr>,
      snd (store_interface L (AnyNil, None) v))"
  by (simp add: Unmarshal_NoteAttribute_def decode_NoteAttribute_def property_object_def
        store_NoteAttribute_member_def field_of_def NoteAttribute_names_def
        NoteAttribute_zero_def split: prod.splits)

lemma scalar_not_NoteAttribute:
  "(\<exists>s. x = JString s) \<or> (\<exists>n. x = JNumber n) \<or> (\<exists>b. x = JBool b) \<Longrightarrow>
   \<not> first_byte_is_bracket x \<and> snd (Unmarshal_NoteAttribute L x) = Some UnmarshalTypeError"
  by (auto simp: first_byte_is_bracket_def Unmarshal_NoteAttribute_def decode_NoteAttribute_def)

lemma example_pair:
  "Unmarshal_NoteAttribute small_library
     (JObject [(''name'', JString ''a''), (''value'', JString ''1'')])
   = (\<lparr>Name = ''a'', Value = AnyString ''1''\<rparr>, None)"
  using Unmarshal_property_object [of small_library "''a''" "JString ''1''"]
  by (simp add: property_object_def store_interface_fresh)

subsection \<open>\<open>LineItem.UnmarshalJSON\<close>, case by case\<close>

lemma LineItem_decode_not_object:
  "LineItem_UnmarshalJSON L dec li Malformed = Return li (Some SyntaxError)"
  "LineItem_UnmarshalJSON L dec li (Text JNull) = Panic"
  "LineItem_UnmarshalJSON L dec li (Text (JBool b)) = Return li (Some UnmarshalTypeError)"
  "LineItem_UnmarshalJSON L dec li (Text (JNumber n)) = Return li (Some UnmarshalTypeError)"
  "LineItem_UnmarshalJSON L dec li (Text (JString s)) = Return li (Some UnmarshalTypeError)"
  "LineItem_UnmarshalJSON L dec li (Text (JArray js)) = Return li (Some UnmarshalTypeError)"
  by (simp_all add: LineItem_UnmarshalJSON_def Unmarshal_LineItem_aux_def)

lemma LineItem_decode_fields_error:
  "dec (other_members L LineItem_aux_names ''properties'' ms) (LineItem_fields li) = (r, Some e) \<Longrightarrow>
   LineItem_UnmarshalJSON L dec li (Text (JObject ms)) = Return (li\<lparr>LineItem_fields := r\<rparr>) (Some e)"
  by (simp add: LineItem_UnmarshalJSON_def Unmarshal_LineItem_aux_def)

lemma LineItem_decode_absent:
  "dec (other_members L LineItem_aux_names ''properties'' ms) (LineItem_fields li) = (r, None) \<Longrightarrow>
   members_of L LineItem_aux_names ''properties'' ms = [] \<Longrightarrow>
   LineItem_UnmarshalJSON L dec li (Text (JObject ms)) = Return (li\<lparr>LineItem_fields := r\<rparr>) None"
  by (simp add: LineItem_UnmarshalJSON_def Unmarshal_LineItem_aux_def)

lemma LineItem_decode_present:
  assumes "dec (other_members L LineItem_aux_names ''properties'' ms) (LineItem_fields li) = (r, None)"
      and "members_of L LineItem_aux_names ''properties'' ms = xs @ [x]"
  shows "LineItem_UnmarshalJSON L dec li (Text (JObject ms)) =
     (if first_byte_is_bracket x then
        (case Unmarshal_NoteAttributes L x of
           (p, Some e) \<Rightarrow> Return (li\<lparr>LineItem_fields := r\<rparr>) (Some e)
         | (p, None) \<Rightarrow> Return (li\<lparr>LineItem_fields := r, Properties := p\<rparr>) None)
      else
        (case Unmarshal_NoteAttribute L x of
           (p, Some e) \<Rightarrow> Return (li\<lparr>LineItem_fields := r\<rparr>) (Some e)
         | (p, None) \<Rightarrow>
             if Name p = [] \<and> Value p = AnyNil
             then Return (li\<lparr>LineItem_fields := r, Properties := None\<rparr>) None
             else Return (li\<lparr>LineItem_fields := r, Properties := Some [p]\<rparr>) None))"
  using assms
  by (cases xs)
     (simp_all add: LineItem_UnmarshalJSON_def Unmarshal_LineItem_aux_def
        split: prod.splits option.splits)

lemma LineItem_decode_array:
  "dec (other_members L LineItem_aux_names ''properties'' ms) (LineItem_fields li) = (r, None) \<Longrightarrow>
   members_of L LineItem_aux_names ''properties'' ms = xs @ [JArray js] \<Longrightarrow>
   LineItem_UnmarshalJSON L dec li (Text (JObject ms)) =
     (case decode_elements L js of
        (ps, Some e) \<Rightarrow> Return (li\<lparr>LineItem_fields := r\<rparr>) (Some e)
      | (ps, None) \<Rightarrow> Return (li\<lparr>LineItem_fields := r, Properties := Some ps\<rparr>) None)"
  by (cases xs)
     (simp_all add: LineItem_UnmarshalJSON_def Unmarshal_LineItem_aux_def
        first_byte_is_bracket_def Unmarshal_NoteAttributes_def split: prod.splits option.splits)

lemma LineItem_decode_single:
  "dec (other_members L LineItem_aux_names ''properties'' ms) (LineItem_fields li) = (r, None) \<Longrightarrow>
   members_of L LineItem_aux_names ''properties'' ms = xs @ [x] \<Longrightarrow>
   \<not> first_byte_is_bracket x \<Longrightarrow>
   LineItem_UnmarshalJSON L dec li (Text (JObject ms)) =
     (case Unmarshal_NoteAttribute L x of
        (p, Some e) \<Rightarrow> Return (li\<lparr>LineItem_fields := r\<rparr>) (Some e)
      | (p, None) \<Rightarrow>
          if Name p = [] \<and> Value p = AnyNil
          then Return (li\<lparr>LineItem_fields := r, Properties := None\<rparr>) None
          else Return (li\<lparr>LineItem_fields := r, Properties := Some [p]\<rparr>) None)"
  by (cases xs)
     (simp_all add: LineItem_UnmarshalJSON_def Unmarshal_LineItem_aux_def
        split: prod.splits option.splits)

lemma LineItem_object_error_keeps_Properties:
  assumes "LineItem_UnmarshalJSON L dec li (Text (JObject ms)) = Return li' (Some e)"
  shows "Properties li' = Properties li"
proof -
  obtain r err where
    dec: "dec (other_members L LineItem_aux_names ''properties'' ms) (LineItem_fields li) = (r, err)"
    by (cases "dec (other_members L LineItem_aux_names ''properties'' ms) (LineItem_fields li)")
  show ?thesis
  proof (cases err)
    case (Some e')
    with dec assms show ?thesis
      by (auto simp: LineItem_decode_fields_error [where dec = dec])
  next
    case None
    note ok = dec [unfolded None]
    show ?thesis
    proof (cases "members_of L LineItem_aux_names ''properties'' ms" rule: rev_cases)
      case Nil
      with ok assms show ?thesis
        by (simp add: LineItem_decode_absent [where dec = dec])
    next
      case (snoc xs x)
      from assms show ?thesis
        unfolding LineItem_decode_present [where dec = dec, OF ok snoc]
        by (auto split: prod.splits option.splits if_splits)
    qed
  qed
qed

lemma LineItem_error_keeps_Properties:
  assumes "LineItem_UnmarshalJSON L dec li data = Return li' (Some e)"
  shows "Properties li' = Properties li"
proof (cases data)
  case Malformed
  with assms show ?thesis by (simp add: LineItem_decode_not_object)
next
  case (Text v)
  with assms show ?thesis
    by (cases v) (auto simp: LineItem_decode_not_object dest: LineItem_object_error_keeps_Properties)
qed

lemma LineItem_field_failure:
  assumes m: "members_of L LineItem_aux_names ''properties'' ms = xs @ [x]"
      and bad: "if first_byte_is_bracket x then snd (Unmarshal_NoteAttributes L x) \<noteq> None
                else snd (Unmarshal_NoteAttribute L x) \<noteq> None"
  shows "\<exists>li' e. LineItem_UnmarshalJSON L dec li (Text (JObject ms)) = Return li' (Some e) \<and>
           Properties li' = Properties li"
proof -
  obtain r err where
    dec: "dec (other_members L LineItem_aux_names ''properties'' ms) (LineItem_fields li) = (r, err)"
    by (cases "dec (other_members L LineItem_aux_names ''properties'' ms) (LineItem_fields li)")
  show ?thesis
  proof (cases err)
    case (Some e')
    with dec show ?thesis
      by (simp add: LineItem_decode_fields_error [where dec = dec])
  next
    case None
    from bad show ?thesis
      by (auto simp: LineItem_decode_present [where dec = dec, OF dec [unfolded None] m]
            split: prod.splits option.splits if_splits)
  qed
qed

lemma LineItem_success_decoded:
  assumes m: "members_of L LineItem_aux_names ''properties'' ms = xs @ [x]"
      and ok: "LineItem_UnmarshalJSON L dec li (Text (JObject ms)) = Return li' None"
  shows "if first_byte_is_bracket x
         then Unmarshal_NoteAttributes L x = (Properties li', None)
         else \<exists>p. Unmarshal_NoteAttribute L x = (p, None) \<and>
                Properties li' = (if Name p = [] \<and> Value p = AnyNil then None else Some [p])"
proof -
  obtain r err where
    dec: "dec (other_members L LineItem_aux_names ''properties'' ms) (LineItem_fields li) = (r, err)"
    by (cases "dec (other_members L LineItem_aux_names ''properties'' ms) (LineItem_fields li)")
  show ?thesis
  proof (cases err)
    case (Some e')
    with dec ok show ?thesis
      by (simp add: LineItem_decode_fields_error [where dec = dec])
  next
    case None
    note run = LineItem_decode_present [where dec = dec, OF dec [unfolded None] m]
    show ?thesis
    proof (cases "first_byte_is_bracket x")
      case True
      obtain p e where p: "Unmarshal_NoteAttributes L x = (p, e)"
        by (cases "Unmarshal_NoteAttributes L x")
      from ok run True p show ?thesis
        by (cases e) auto
    next
      case False
      obtain p e where p: "Unmarshal_NoteAttribute L x = (p, e)"
        by (cases "Unmarshal_NoteAttribute L x")
      from ok run False p show ?thesis
        by (cases e; cases "Name p = [] \<and> Value p = AnyNil") auto
    qed
  qed
qed

lemma skip_fields_LineItem:
  "skip_fields ms (LineItem_fields (li :: ('f, unit) LineItem)) = ((), None)"
  by (simp add: skip_fields_def)

subsection \<open>\<open>ShippingLines.UnmarshalJSON\<close> on an object\<close>

lemma ShippingLines_decode_object:
  assumes "dec (other_members L ShippingLines_aux_names ''requested_fulfillment_service_id'' ms)
             (ShippingLines_fields sl) = (r, err)"
      and "foldl (store_interface L) (AnyNil, None)
             (members_of L ShippingLines_aux_names ''requested_fulfillment_service_id'' ms) = (v, err')"
  shows "ShippingLines_UnmarshalJSON L dec sl (Text (JObject ms)) =
     (case saveError err err' of
        Some e \<Rightarrow> Return (sl\<lparr>ShippingLines_fields := r\<rparr>) (Some e)
      | None \<Rightarrow>
          Return (sl\<lparr>ShippingLines_fields := r,
                      RequestedFulfillmentServiceId := (if v = AnyNil then [] else Sprint L v)\<rparr>)
            None)"
  using assms
  by (cases v)
     (simp_all add: ShippingLines_UnmarshalJSON_def Unmarshal_ShippingLines_aux_def
        split: option.splits)


subsection \<open>Claims on the shipping-line decoder\<close>



text \<open>
  Claim C10. Let no member of the input object select
  \<open>requested_fulfillment_service_id\<close>. Then, when the fields of fixed shape decode
  without error, the decode returns without error and the receiver's field is the empty
  string, whatever it was before; and the decode gives the very result it gives for the
  same object with the member added, anywhere, with the value \<open>null\<close>.
\<close>

theorem ShippingLines_identifier_absent:
  assumes absent: "members_of L ShippingLines_aux_names ''requested_fulfillment_service_id''
                     (pre @ post) = []"
  shows "(\<forall>r. dec (other_members L ShippingLines_aux_names ''requested_fulfillment_service_id''
                     (pre @ post)) (ShippingLines_fields sl) = (r, None) \<longrightarrow>
            ShippingLines_UnmarshalJSON L dec sl (Text (JObject (pre @ post))) =
              Return (sl\<lparr>ShippingLines_fields := r, RequestedFulfillmentServiceId := []\<rparr>) None) \<and>
         (\<forall>k. routes_to L ShippingLines_aux_names ''requested_fulfillment_service_id'' k \<longrightarrow>
            ShippingLines_UnmarshalJSON L dec sl (Text (JObject (pre @ post))) =
            ShippingLines_UnmarshalJSON L dec sl (Text (JObject (pre @ (k, JNull) # post))))"
proof (intro conjI allI impI)
  fix r
  assume "dec (other_members L ShippingLines_aux_names ''requested_fulfillment_service_id''
                     (pre @ post)) (ShippingLines_fields sl) = (r, None)"
  from ShippingLines_decode_object [where dec = dec, OF this, of AnyNil None]
  show "ShippingLines_UnmarshalJSON L dec sl (Text (JObject (pre @ post))) =
      Return (sl\<lparr>ShippingLines_fields := r, RequestedFulfillmentServiceId := []\<rparr>) None"
    using absent by simp
next
  fix k
  assume k: "routes_to L ShippingLines_aux_names ''requested_fulfillment_service_id'' k"
  obtain r err where dec:
    "dec (other_members L ShippingLines_aux_names ''requested_fulfillment_service_id''
           (pre @ post)) (ShippingLines_fields sl) = (r, err)"
    by (cases "dec (other_members L ShippingLines_aux_names ''requested_fulfillment_service_id''
           (pre @ post)) (ShippingLines_fields sl)")
  then have dec': "dec (other_members L ShippingLines_aux_names ''requested_fulfillment_service_id''
           (pre @ (k, JNull) # post)) (ShippingLines_fields sl) = (r, err)"
    by (simp add: other_members_routed [OF k])
  have null: "members_of L ShippingLines_aux_names ''requested_fulfillment_service_id''
           (pre @ (k, JNull) # post) = [JNull]"
    using absent k by (simp add: members_of_append members_of_Cons)
  have "ShippingLines_UnmarshalJSON L dec sl (Text (JObject (pre @ post))) =
      (case saveError err None of
        Some e \<Rightarrow> Return (sl\<lparr>ShippingLines_fields := r\<rparr>) (Some e)
      | None \<Rightarrow> Return (sl\<lparr>ShippingLines_fields := r, RequestedFulfillmentServiceId := []\<rparr>) None)"
    using ShippingLines_decode_object [where dec = dec, OF dec, of AnyNil None] absent by simp
  moreover have "ShippingLines_UnmarshalJSON L dec sl (Text (JObject (pre @ (k, JNull) # post))) =
      (case saveError err None of
        Some e \<Rightarrow> Return (sl\<lparr>ShippingLines_fields := r\<rparr>) (Some e)
      | None \<Rightarrow> Return (sl\<lparr>ShippingLines_fields := r, RequestedFulfillmentServiceId := []\<rparr>) None)"
    using ShippingLines_decode_object [where dec = dec, OF dec', of AnyNil None] null
    by (simp add: store_interface_fresh)
  ultimately show "ShippingLines_UnmarshalJSON L dec sl (Text (JObject (pre @ post))) =
            ShippingLines_UnmarshalJSON L dec sl (Text (JObject (pre @ (k, JNull) # post)))"
    by simp
qed

theorem ShippingLines_identifier_absent_witness:
  "ShippingLines_UnmarshalJSON small_library skip_fields
     \<lparr>RequestedFulfillmentServiceId = ''old'', ShippingLines_fields = ()\<rparr> (Text (JObject []))
     = Return \<lparr>RequestedFulfillmentServiceId = [], ShippingLines_fields = ()\<rparr> None \<and>
   ShippingLines_UnmarshalJSON small_library skip_fields
     \<lparr>RequestedFulfillmentServiceId = ''old'', ShippingLines_fields = ()\<rparr> (Text (JObject []))
     = ShippingLines_UnmarshalJSON small_library skip_fields
         \<lparr>RequestedFulfillmentServiceId = ''old'', ShippingLines_fields = ()\<rparr>
         (Text (JObject [(''requested_fulfillment_service_id'', JNull)]))"
proof -
  have absent: "members_of small_library ShippingLines_aux_names
      ''requested_fulfillment_service_id'' ([] @ []) = []"
    by (simp add: members_of_def)
  note none = ShippingLines_identifier_absent
    [where L = small_library and dec = skip_fields and pre = "[]" and post = "[]"
       and sl = "\<lparr>RequestedFulfillmentServiceId = ''old'', ShippingLines_fields = ()\<rparr>",
     OF absent]
  from none [THEN conjunct1] have 1:
    "ShippingLines_UnmarshalJSON small_library skip_fields
       \<lparr>RequestedFulfillmentServiceId = ''old'', ShippingLines_fields = ()\<rparr> (Text (JObject []))
     = Return \<lparr>RequestedFulfillmentServiceId = [], ShippingLines_fields = ()\<rparr> None"
    by (simp add: skip_fields_def)
  from none [THEN conjunct2, THEN spec, THEN mp, OF rfs_routes] have 2:
    "ShippingLines_UnmarshalJSON small_library skip_fields
       \<lparr>RequestedFulfillmentServiceId = ''old'', ShippingLines_fields = ()\<rparr> (Text (JObject []))
     = ShippingLines_UnmarshalJSON small_library skip_fields
         \<lparr>RequestedFulfillmentServiceId = ''old'', ShippingLines_fields = ()\<rparr>
         (Text (JObject [(''requested_fulfillment_service_id'', JNull)]))"
    by simp
  from 1 2 show ?thesis by (rule conjI)
qed

subsection \<open>Claims on the line-item decoder\<close>

text \<open>
  Claim C4. Let the input be an object whose fields of fixed shape decode without
  error. When no member selects \<open>properties\<close>, the decode returns without error and
  leaves \<open>Properties\<close> as the receiver has it (for the zero value a decode starts from:
  nil, no properties). When the value of \<open>properties\<close> is not an array and decodes
  without error as the single pair \<open>p\<close>, the decode returns without error, and
  \<open>Properties\<close> is nil exactly when the name of \<open>p\<close> is empty and its value is nil, and
  is the one-element sequence \<open>[p]\<close> otherwise. For the input \<^verbatim>\<open>{"properties": {}}\<close> the
  result has no properties.
\<close>

theorem LineItem_absent_or_empty_pair:
  assumes dec: "dec (other_members L LineItem_aux_names ''properties'' ms) (LineItem_fields li) = (r, None)"
  shows "(members_of L LineItem_aux_names ''properties'' ms = [] \<longrightarrow>
            LineItem_UnmarshalJSON L dec li (Text (JObject ms)) =
              Return (li\<lparr>LineItem_fields := r\<rparr>) None) \<and>
         (\<forall>xs x p. members_of L LineItem_aux_names ''properties'' ms = xs @ [x] \<and>
            \<not> first_byte_is_bracket x \<and> Unmarshal_NoteAttribute L x = (p, None) \<longrightarrow>
            LineItem_UnmarshalJSON L dec li (Text (JObject ms)) =
              Return (li\<lparr>LineItem_fields := r,
                          Properties := (if Name p = [] \<and> Value p = AnyNil
                                         then None else Some [p])\<rparr>) None)"
proof (intro conjI allI impI)
  assume "members_of L LineItem_aux_names ''properties'' ms = []"
  with dec show "LineItem_UnmarshalJSON L dec li (Text (JObject ms)) =
      Return (li\<lparr>LineItem_fields := r\<rparr>) None"
    by (simp add: LineItem_decode_absent [where dec = dec])
next
  fix xs x p
  assume "members_of L LineItem_aux_names ''properties'' ms = xs @ [x] \<and>
            \<not> first_byte_is_bracket x \<and> Unmarshal_NoteAttribute L x = (p, None)"
  then show "LineItem_UnmarshalJSON L dec li (Text (JObject ms)) =
              Return (li\<lparr>LineItem_fields := r,
                          Properties := (if Name p = [] \<and> Value p = AnyNil
                                         then None else Some [p])\<rparr>) None"
    by (simp add: LineItem_decode_present [where dec = dec, OF dec])
qed

theorem LineItem_absent_or_empty_pair_witness:
  "LineItem_UnmarshalJSON small_library skip_fields LineItem_zero
     (Text (JObject [(''properties'', JObject [])]))
     = Return \<lparr>Properties = None, LineItem_fields = ()\<rparr> None \<and>
   LineItem_UnmarshalJSON small_library skip_fields LineItem_zero (Text (JObject []))
     = Return \<lparr>Properties = None, LineItem_fields = ()\<rparr> None \<and>
   LineItem_UnmarshalJSON small_library skip_fields LineItem_zero
     (Text (JObject [(''properties'', JObject [(''name'', JString ''a'')])]))
     = Return \<lparr>Properties = Some [\<lparr>Name = ''a'', Value = AnyNil\<rparr>], LineItem_fields = ()\<rparr> None"
proof -
  have empty: "Unmarshal_NoteAttribute small_library (JObject []) = (\<lparr>Name = [], Value = AnyNil\<rparr>, None)"
    by (simp add: Unmarshal_NoteAttribute_def decode_NoteAttribute_def NoteAttribute_zero_def)
  have named: "Unmarshal_NoteAttribute small_library (JObject [(''name'', JString ''a'')])
      = (\<lparr>Name = ''a'', Value = AnyNil\<rparr>, None)"
    by (simp add: Unmarshal_NoteAttribute_def decode_NoteAttribute_def NoteAttribute_zero_def
          store_NoteAttribute_member_def field_of_def NoteAttribute_names_def)
  have absent: "members_of small_library LineItem_aux_names ''properties'' [] = []"
    by (simp add: members_of_def)
  have once: "members_of small_library LineItem_aux_names ''properties'' [(''properties'', x)] = [] @ [x]"
    for x by (simp add: properties_member_once)
  note pair = LineItem_absent_or_empty_pair
    [where L = small_library and dec = skip_fields and li = LineItem_zero, OF skip_fields_LineItem]
  from pair [of "[(''properties'', JObject [])]"] once [of "JObject []"] empty
  have 1: "LineItem_UnmarshalJSON small_library skip_fields LineItem_zero
     (Text (JObject [(''properties'', JObject [])]))
     = Return \<lparr>Properties = None, LineItem_fields = ()\<rparr> None"
    by (simp add: first_byte_is_bracket_def LineItem_zero_def)
  from pair [of "[]"] absent
  have 2: "LineItem_UnmarshalJSON small_library skip_fields LineItem_zero (Text (JObject []))
     = Return \<lparr>Properties = None, LineItem_fields = ()\<rparr> None"
    by (simp add: LineItem_zero_def)
  from pair [of "[(''properties'', JObject [(''name'', JString ''a'')])]"]
    once [of "JObject [(''name'', JString ''a'')]"] named
  have 3: "LineItem_UnmarshalJSON small_library skip_fields LineItem_zero
     (Text (JObject [(''properties'', JObject [(''name'', JString ''a'')])]))
     = Return \<lparr>Properties = Some [\<lparr>Name = ''a'', Value = AnyNil\<rparr>], LineItem_fields = ()\<rparr> None"
    by (simp add: first_byte_is_bracket_def LineItem_zero_def)
  from 1 2 3 show ?thesis by simp
qed

text \<open>
  Claim C5. Let the object \<open>o\<close> decode as the pair \<open>p\<close>, and let \<open>p\<close> not be empty (its
  name is not empty or its value is not nil). Then a record whose \<open>properties\<close> member
  is \<open>o\<close> and the same record with the one-element array \<open>[o]\<close> in its place decode to
  the same result. \<^verbatim>\<open>{"properties": {"name":"a","value":"1"}}\<close> decodes as its array form
  does, to the single entry with name \<open>a\<close> and value \<open>"1"\<close>.
\<close>

theorem LineItem_object_form_as_array_form:
  assumes k: "routes_to L LineItem_aux_names ''properties'' k"
      and p: "Unmarshal_NoteAttribute L (JObject pm) = (p, e)"
      and nonempty: "\<not> (Name p = [] \<and> Value p = AnyNil)"
  shows "LineItem_UnmarshalJSON L dec li (Text (JObject (pre @ (k, JObject pm) # post))) =
         LineItem_UnmarshalJSON L dec li (Text (JObject (pre @ (k, JArray [JObject pm]) # post)))"
proof -
  let ?names = "LineItem_aux_names"
  let ?obj = "pre @ (k, JObject pm) # post"
  let ?arr = "pre @ (k, JArray [JObject pm]) # post"
  obtain r err where
    dec: "dec (other_members L ?names ''properties'' (pre @ post)) (LineItem_fields li) = (r, err)"
    by (cases "dec (other_members L ?names ''properties'' (pre @ post)) (LineItem_fields li)")
  have dec_obj: "dec (other_members L ?names ''properties'' ?obj) (LineItem_fields li) = (r, err)"
   and dec_arr: "dec (other_members L ?names ''properties'' ?arr) (LineItem_fields li) = (r, err)"
    using dec by (simp_all add: other_members_routed [OF k])
  show ?thesis
  proof (cases err)
    case (Some e')
    with dec_obj dec_arr show ?thesis
      by (simp add: LineItem_decode_fields_error)
  next
    case None
    note ok_obj = dec_obj [unfolded None] and ok_arr = dec_arr [unfolded None]
    show ?thesis
    proof (cases "members_of L ?names ''properties'' post" rule: rev_cases)
      case Nil
      have "members_of L ?names ''properties'' ?obj =
              members_of L ?names ''properties'' pre @ [JObject pm]"
       and "members_of L ?names ''properties'' ?arr =
              members_of L ?names ''properties'' pre @ [JArray [JObject pm]]"
        using k Nil by (simp_all add: members_of_append members_of_Cons)
      then show ?thesis
        using p nonempty
        by (auto simp: LineItem_decode_present [where dec = dec, OF ok_obj]
              LineItem_decode_present [where dec = dec, OF ok_arr]
              first_byte_is_bracket_def Unmarshal_NoteAttributes_singleton
              split: option.splits)
    next
      case (snoc ys y)
      have "members_of L ?names ''properties'' ?obj =
              (members_of L ?names ''properties'' pre @ JObject pm # ys) @ [y]"
       and "members_of L ?names ''properties'' ?arr =
              (members_of L ?names ''properties'' pre @ JArray [JObject pm] # ys) @ [y]"
        using k snoc by (simp_all add: members_of_append members_of_Cons)
      then show ?thesis
        by (simp only: LineItem_decode_present [where dec = dec, OF ok_obj] LineItem_decode_present [where dec = dec, OF ok_arr])
    qed
  qed
qed

theorem LineItem_object_form_as_array_form_witness:
  "LineItem_UnmarshalJSON small_library skip_fields LineItem_zero
     (Text (JObject [(''properties'',
        JObject [(''name'', JString ''a''), (''value'', JString ''1'')])]))
   = LineItem_UnmarshalJSON small_library skip_fields LineItem_zero
     (Text (JObject [(''properties'',
        JArray [JObject [(''name'', JString ''a''), (''value'', JString ''1'')]])])) \<and>
   LineItem_UnmarshalJSON small_library skip_fields LineItem_zero
     (Text (JObject [(''properties'',
        JObject [(''name'', JString ''a''), (''value'', JString ''1'')])]))
   = Return \<lparr>Properties = Some [\<lparr>Name = ''a'', Value = AnyString ''1''\<rparr>],
              LineItem_fields = ()\<rparr> None"
proof -
  have nonempty: "\<not> (Name \<lparr>Name = ''a'', Value = AnyString ''1'' :: 16 word iface\<rparr> = [] \<and>
      Value \<lparr>Name = ''a'', Value = AnyString ''1'' :: 16 word iface\<rparr> = AnyNil)"
    by simp
  have same: "LineItem_UnmarshalJSON small_library skip_fields LineItem_zero
     (Text (JObject ([] @ (''properties'',
        JObject [(''name'', JString ''a''), (''value'', JString ''1'')]) # [])))
   = LineItem_UnmarshalJSON small_library skip_fields LineItem_zero
     (Text (JObject ([] @ (''properties'',
        JArray [JObject [(''name'', JString ''a''), (''value'', JString ''1'')]]) # [])))"
    by (rule LineItem_object_form_as_array_form [OF properties_routes example_pair nonempty])
  have "LineItem_UnmarshalJSON small_library skip_fields LineItem_zero
     (Text (JObject [(''properties'',
        JObject [(''name'', JString ''a''), (''value'', JString ''1'')])]))
   = Return \<lparr>Properties = Some [\<lparr>Name = ''a'', Value = AnyString ''1''\<rparr>],
              LineItem_fields = ()\<rparr> None"
    using LineItem_decode_present [where L = small_library and dec = skip_fields
        and li = LineItem_zero and xs = "[]", OF skip_fields_LineItem]
      properties_member_once [of small_library] example_pair
    by (simp add: first_byte_is_bracket_def LineItem_zero_def)
  with same show ?thesis by simp
qed

text \<open>
  Claim C6. Let the fields of fixed shape decode without error and let the value of
  \<open>properties\<close> be an array (its text begins with \<open>[\<close>). When every element of the
  array decodes without error, the decode returns without error and \<open>Properties\<close> is the
  sequence of the decoded elements, one for each element and in the order of the array.
  In particular, when the elements are the object forms of the pairs \<open>(name, value)\<close> of
  a list, \<open>Properties\<close> is that list of names with the decoded values, in its order.
\<close>

theorem LineItem_array_form:
  assumes dec: "dec (other_members L LineItem_aux_names ''properties'' ms) (LineItem_fields li) = (r, None)"
      and arr: "members_of L LineItem_aux_names ''properties'' ms = xs @ [JArray js]"
  shows "((\<forall>x \<in> set js. snd (Unmarshal_NoteAttribute L x) = None) \<longrightarrow>
            LineItem_UnmarshalJSON L dec li (Text (JObject ms)) =
              Return (li\<lparr>LineItem_fields := r,
                          Properties := Some (map (\<lambda>x. fst (Unmarshal_NoteAttribute L x)) js)\<rparr>)
                None) \<and>
         (\<forall>pairs. js = map (\<lambda>(name, v). property_object name v) pairs \<and>
            (\<forall>(name, v) \<in> set pairs. snd (valueInterface L v) = None) \<longrightarrow>
            LineItem_UnmarshalJSON L dec li (Text (JObject ms)) =
              Return (li\<lparr>LineItem_fields := r,
                          Properties := Some (map (\<lambda>(name, v).
                             \<lparr>Name = name, Value = fst (valueInterface L v)\<rparr>) pairs)\<rparr>)
                None)"
proof (intro conjI allI impI)
  assume ok: "\<forall>x \<in> set js. snd (Unmarshal_NoteAttribute L x) = None"
  then have "snd (decode_elements L js) = None"
    by (simp add: decode_elements_ok)
  then have "decode_elements L js = (map (\<lambda>x. fst (Unmarshal_NoteAttribute L x)) js, None)"
    by (metis decode_elements_map prod.collapse)
  then show "LineItem_UnmarshalJSON L dec li (Text (JObject ms)) =
      Return (li\<lparr>LineItem_fields := r,
                  Properties := Some (map (\<lambda>x. fst (Unmarshal_NoteAttribute L x)) js)\<rparr>) None"
    by (simp add: LineItem_decode_array [where dec = dec, OF dec arr])
next
  fix pairs
  assume a: "js = map (\<lambda>(name, v). property_object name v) pairs \<and>
            (\<forall>(name, v) \<in> set pairs. snd (valueInterface L v) = None)"
  have each: "Unmarshal_NoteAttribute L (property_object name v) =
                (\<lparr>Name = name, Value = fst (valueInterface L v)\<rparr>, None)"
    if "(name, v) \<in> set pairs" for name v
    using that a by (auto simp: Unmarshal_property_object store_interface_ok)
  have "snd (decode_elements L js) = None"
    using a each by (auto simp: decode_elements_ok)
  moreover have "fst (decode_elements L js) =
      map (\<lambda>(name, v). \<lparr>Name = name, Value = fst (valueInterface L v)\<rparr>) pairs"
    using a each by (auto simp: decode_elements_map)
  ultimately have "decode_elements L js =
      (map (\<lambda>(name, v). \<lparr>Name = name, Value = fst (valueInterface L v)\<rparr>) pairs, None)"
    by (metis prod.collapse)
  then show "LineItem_UnmarshalJSON L dec li (Text (JObject ms)) =
      Return (li\<lparr>LineItem_fields := r,
                  Properties := Some (map (\<lambda>(name, v).
                     \<lparr>Name = name, Value = fst (valueInterface L v)\<rparr>) pairs)\<rparr>) None"
    by (simp add: LineItem_decode_array [where dec = dec, OF dec arr])
qed

theorem LineItem_array_form_witness:
  "LineItem_UnmarshalJSON small_library skip_fields LineItem_zero
     (Text (JObject [(''properties'',
        JArray [JObject [(''name'', JString ''a''), (''value'', JString ''1'')],
                JObject [(''name'', JString ''b''), (''value'', JNumber 2)]])]))
   = Return \<lparr>Properties = Some [\<lparr>Name = ''a'', Value = AnyString ''1''\<rparr>,
                                 \<lparr>Name = ''b'', Value = AnyFloat64 2\<rparr>],
              LineItem_fields = ()\<rparr> None"
proof -
  let ?pairs = "[(''a'', JString ''1''), (''b'', JNumber (2 :: 16 word))]"
  have arr: "members_of small_library LineItem_aux_names ''properties''
      [(''properties'', JArray (map (\<lambda>(name, v). property_object name v) ?pairs))]
      = [] @ [JArray (map (\<lambda>(name, v). property_object name v) ?pairs)]"
    by (simp add: properties_member_once)
  have ok: "\<forall>(name, v) \<in> set ?pairs. snd (valueInterface small_library v) = None"
    by (simp add: small_library_def)
  from LineItem_array_form [where L = small_library and dec = skip_fields
      and li = LineItem_zero, OF skip_fields_LineItem arr] ok
  have "LineItem_UnmarshalJSON small_library skip_fields LineItem_zero
     (Text (JObject [(''properties'', JArray (map (\<lambda>(name, v). property_object name v) ?pairs))]))
   = Return (LineItem_zero\<lparr>LineItem_fields := (),
       Properties := Some (map (\<lambda>(name, v).
          \<lparr>Name = name, Value = fst (valueInterface small_library v)\<rparr>) ?pairs)\<rparr>) None"
    by blast
  then show ?thesis
    by (simp add: property_object_def LineItem_zero_def small_library_def)
qed

text \<open>
  Claim C7. A line-item input that is not a JSON text makes the decode return a syntax
  error and leaves the receiver as it is. Whenever the decode returns an error,
  \<open>Properties\<close> is what the receiver had before: no default is put in its place. When
  the value of \<open>properties\<close> fails to decode (as an array of properties when its text
  begins with \<open>[\<close>, as a single property otherwise), the decode returns an error; the
  value fails to decode whenever it is a string, a number or a boolean. And whenever
  the decode returns no error for a record that has the member, \<open>Properties\<close> is what
  the value decoded to without error: the decoded array, or the single decoded pair,
  and nil in its place only for a pair with an empty name and a nil value.
\<close>

theorem LineItem_decode_errors_surface:
  "LineItem_UnmarshalJSON L dec li Malformed = Return li (Some SyntaxError) \<and>
   (\<forall>li' e. LineItem_UnmarshalJSON L dec li data = Return li' (Some e) \<longrightarrow>
      Properties li' = Properties li) \<and>
   (\<forall>xs x. members_of L LineItem_aux_names ''properties'' ms = xs @ [x] \<and>
      (if first_byte_is_bracket x then snd (Unmarshal_NoteAttributes L x) \<noteq> None
       else snd (Unmarshal_NoteAttribute L x) \<noteq> None) \<longrightarrow>
      (\<exists>li' e. LineItem_UnmarshalJSON L dec li (Text (JObject ms)) = Return li' (Some e) \<and>
         Properties li' = Properties li)) \<and>
   (\<forall>xs x. members_of L LineItem_aux_names ''properties'' ms = xs @ [x] \<and>
      ((\<exists>s. x = JString s) \<or> (\<exists>n. x = JNumber n) \<or> (\<exists>b. x = JBool b)) \<longrightarrow>
      (\<exists>li' e. LineItem_UnmarshalJSON L dec li (Text (JObject ms)) = Return li' (Some e) \<and>
         Properties li' = Properties li)) \<and>
   (\<forall>xs x li'. members_of L LineItem_aux_names ''properties'' ms = xs @ [x] \<and>
      LineItem_UnmarshalJSON L dec li (Text (JObject ms)) = Return li' None \<longrightarrow>
      (if first_byte_is_bracket x
       then Unmarshal_NoteAttributes L x = (Properties li', None)
       else \<exists>p. Unmarshal_NoteAttribute L x = (p, None) \<and>
              Properties li' = (if Name p = [] \<and> Value p = AnyNil then None else Some [p])))"
proof (intro conjI allI impI)
  fix xs x li'
  assume "members_of L LineItem_aux_names ''properties'' ms = xs @ [x] \<and>
      LineItem_UnmarshalJSON L dec li (Text (JObject ms)) = Return li' None"
  then have m: "members_of L LineItem_aux_names ''properties'' ms = xs @ [x]"
    and ok: "LineItem_UnmarshalJSON L dec li (Text (JObject ms)) = Return li' None"
    by simp_all
  show "if first_byte_is_bracket x
       then Unmarshal_NoteAttributes L x = (Properties li', None)
       else \<exists>p. Unmarshal_NoteAttribute L x = (p, None) \<and>
              Properties li' = (if Name p = [] \<and> Value p = AnyNil then None else Some [p])"
    by (rule LineItem_success_decoded [OF m ok])
next
  show "LineItem_UnmarshalJSON L dec li Malformed = Return li (Some SyntaxError)"
    by (simp add: LineItem_UnmarshalJSON_def Unmarshal_LineItem_aux_def)
next
  fix li' e
  assume "LineItem_UnmarshalJSON L dec li data = Return li' (Some e)"
  then show "Properties li' = Properties li"
    by (rule LineItem_error_keeps_Properties)
next
  fix xs x
  assume "members_of L LineItem_aux_names ''properties'' ms = xs @ [x] \<and>
      (if first_byte_is_bracket x then snd (Unmarshal_NoteAttributes L x) \<noteq> None
       else snd (Unmarshal_NoteAttribute L x) \<noteq> None)"
  then have m: "members_of L LineItem_aux_names ''properties'' ms = xs @ [x]"
    and bad: "if first_byte_is_bracket x then snd (Unmarshal_NoteAttributes L x) \<noteq> None
       else snd (Unmarshal_NoteAttribute L x) \<noteq> None"
    by simp_all
  show "\<exists>li' e. LineItem_UnmarshalJSON L dec li (Text (JObject ms)) = Return li' (Some e) \<and>
         Properties li' = Properties li"
    by (rule LineItem_field_failure [where dec = dec, OF m bad])
next
  fix xs x
  assume a: "members_of L LineItem_aux_names ''properties'' ms = xs @ [x] \<and>
      ((\<exists>s. x = JString s) \<or> (\<exists>n. x = JNumber n) \<or> (\<exists>b. x = JBool b))"
  then have m: "members_of L LineItem_aux_names ''properties'' ms = xs @ [x]"
    and scalar: "(\<exists>s. x = JString s) \<or> (\<exists>n. x = JNumber n) \<or> (\<exists>b. x = JBool b)"
    by simp_all
  from scalar_not_NoteAttribute [OF scalar, of L]
  have bad: "if first_byte_is_bracket x then snd (Unmarshal_NoteAttributes L x) \<noteq> None
       else snd (Unmarshal_NoteAttribute L x) \<noteq> None"
    by simp
  show "\<exists>li' e. LineItem_UnmarshalJSON L dec li (Text (JObject ms)) = Return li' (Some e) \<and>
         Properties li' = Properties li"
    by (rule LineItem_field_failure [where dec = dec, OF m bad])
qed

theorem LineItem_decode_errors_surface_witness:
  "LineItem_UnmarshalJSON small_library skip_fields LineItem_zero Malformed
     = Return LineItem_zero (Some SyntaxError) \<and>
   (\<exists>li' e. LineItem_UnmarshalJSON small_library skip_fields LineItem_zero
        (Text (JObject [(''properties'', JString ''abc'')])) = Return li' (Some e) \<and>
      Properties li' = Properties (LineItem_zero :: (16 word, unit) LineItem))"
proof -
  have once: "members_of small_library LineItem_aux_names ''properties''
      [(''properties'', JString ''abc'')] = [] @ [JString ''abc'']"
    by (simp add: properties_member_once)
  have scalar: "(\<exists>s. JString ''abc'' = (JString s :: 16 word json)) \<or>
      (\<exists>n. JString ''abc'' = (JNumber n :: 16 word json)) \<or>
      (\<exists>b. JString ''abc'' = (JBool b :: 16 word json))"
    by simp
  note surf = LineItem_decode_errors_surface
    [where L = small_library and dec = skip_fields and li = LineItem_zero
       and ms = "[(''properties'', JString ''abc'')]" and data = Malformed]
  note malformed = surf [THEN conjunct1]
  note refused = surf [THEN conjunct2, THEN conjunct2, THEN conjunct2, THEN conjunct1,
    rule_format, OF conjI, OF once scalar]
  from malformed refused show ?thesis by (rule conjI)
qed



end
